theory Spec2Isabelle
  imports Complex_Main
begin

section \<open>Syntax trees, symbols and source files\<close>

text \<open>
  The dead-code analyzer works on the syntax trees and the type checker of the
  TypeScript compiler API. The trees are data here: every node carries what the analyzer
  reads from it, and what the checker answers for it.
\<close>

datatype syntax_kind =
  SourceFileKind | FunctionDeclaration | MethodDeclaration | CallExpression
  | ClassDeclaration | OtherKind

datatype modifier_kind =
  ExportKeyword | DefaultKeyword | AsyncKeyword | StaticKeyword | Decorator | OtherModifier

text \<open>A checker symbol; \<open>fullyQualifiedName\<close> is what \<open>checker.getFullyQualifiedName\<close> returns for it.\<close>

record symbol =
  symbolId :: nat
  fullyQualifiedName :: string

text \<open>The \<open>name\<close> child of a declaration: its text and \<open>checker.getSymbolAtLocation(node.name)\<close>.\<close>

record name_node =
  getText :: string
  symbolAtLocation :: "symbol option"

text \<open>
  What the analyzer reads of one node. \<open>modifiers\<close> is \<open>None\<close> when the property is
  undefined; the compiler keeps the decorators of a declaration there, among the modifier
  keywords, as entries of kind \<open>Decorator\<close>. \<open>decorators\<close> is the property of that name that
  the analyzer looks for: \<open>None\<close> when the node has no such property or when it is not an
  array. Only compilers before TypeScript 4.8 set it; the trees of later compilers have
  no \<open>decorators\<close> property on any node. \<open>expressionSymbol\<close> is
  \<open>checker.getSymbolAtLocation(node.expression)\<close> of a call expression. \<open>getStart\<close> and
  \<open>getEnd\<close> are character positions in the file.
\<close>

record node_info =
  kind :: syntax_kind
  name :: "name_node option"
  modifiers :: "modifier_kind list option"
  decorators :: "string list option"
  expressionSymbol :: "symbol option"
  getStart :: nat
  getEnd :: nat

datatype node = Node (info: node_info) (children: "node list")

text \<open>
  A source file of the program. \<open>lineStarts\<close> is the compiler's line map (the position
  at which each line starts, the first being 0); \<open>root\<close> is the file's own node.
\<close>

record sourceFile =
  fileName :: string
  isDeclarationFile :: bool
  lineStarts :: "nat list"
  root :: node

text \<open>
  \<open>sourceFile.getLineAndCharacterOfPosition(pos).line\<close>: the 0-based index of the last line
  that starts at or before \<open>pos\<close>.
\<close>

definition lineOfPosition :: "sourceFile \<Rightarrow> nat \<Rightarrow> nat" where
  "lineOfPosition sf pos = length (filter (\<lambda>s. s \<le> pos) (lineStarts sf)) - 1"

text \<open>\<open>String.prototype.includes\<close>.\<close>

fun str_includes :: "string \<Rightarrow> string \<Rightarrow> bool" where
  "str_includes [] sub = (sub = [])"
| "str_includes (c # cs) sub = (take (length sub) (c # cs) = sub \<or> str_includes cs sub)"

section \<open>The host: file system, compiler and path library\<close>

text \<open>
  \<open>glob pattern cwd ignore\<close> lists the matching files, \<open>createProgram files\<close> gives the
  source files of the program built from them (\<open>program.getSourceFiles()\<close>), and
  \<open>path_relative from to\<close> is \<open>path.relative\<close>.
\<close>

record host =
  glob :: "string \<Rightarrow> string \<Rightarrow> string list \<Rightarrow> string list"
  createProgram :: "string list \<Rightarrow> sourceFile list"
  path_relative :: "string \<Rightarrow> string \<Rightarrow> string"

text \<open>\<open>[...new Set(xs)]\<close>: the first occurrence of every element, in order.\<close>

fun dedupe :: "'a list \<Rightarrow> 'a list \<Rightarrow> 'a list" where
  "dedupe seen [] = seen"
| "dedupe seen (x # xs) = (if x \<in> set seen then dedupe seen xs else dedupe (seen @ [x]) xs)"

definition findFiles :: "host \<Rightarrow> string \<Rightarrow> string list \<Rightarrow> string list" where
  "findFiles h repoPath patterns =
     (let ignore = [''**/node_modules/**'', ''**/dist/**'', ''**/build/**'', ''**/.next/**'',
                    ''**/coverage/**'', ''**/*.d.ts''];
          allFiles = concat (map (\<lambda>pattern. glob h pattern repoPath ignore) patterns)
      in dedupe [] allFiles)"

section \<open>The analyzer\<close>

record deadCodeFinding =
  filePath :: string
  functionName :: string
  lineStart :: nat
  lineEnd :: nat
  confidence :: rat
  reason :: string

type_synonym call_graph = "string \<rightharpoonup> string set"

record analyzer =
  repoPath :: string
  program :: "sourceFile list"
  callGraph :: call_graph

text \<open>
  The fields of the class. The checker is part of the trees here. The constructor sets the
  repository path and the empty call graph; \<open>program\<close> is assigned by \<open>analyze\<close> before it
  is read, and is the empty list until then.
\<close>

definition DeadCodeAnalyzer :: "string \<Rightarrow> analyzer" where
  "DeadCodeAnalyzer rp = \<lparr>repoPath = rp, program = [], callGraph = Map.empty\<rparr>"

text \<open>\<open>getFullSymbolName\<close> and \<open>isExported\<close>; the latter looks at the modifiers of the node itself.\<close>

definition getFullSymbolName :: "symbol \<Rightarrow> string" where
  "getFullSymbolName s = fullyQualifiedName s"

definition isExported :: "node_info \<Rightarrow> bool" where
  "isExported i = (case modifiers i of None \<Rightarrow> False | Some ms \<Rightarrow> list_ex (\<lambda>m. m = ExportKeyword) ms)"

text \<open>\<open>ts.isFunctionDeclaration(node) || ts.isMethodDeclaration(node)\<close>.\<close>

definition isFunctionLike :: "node_info \<Rightarrow> bool" where
  "isFunctionLike i = (kind i = FunctionDeclaration \<or> kind i = MethodDeclaration)"

text \<open>
  \<open>getContainingFunction\<close> walks the parent links from the node upwards. The argument is
  that chain: the node itself, then its parent, up to the file's node. The first function or
  method declaration that has a name decides, also when the checker has no symbol for it.
\<close>

fun getContainingFunction :: "node_info list \<Rightarrow> symbol option" where
  "getContainingFunction [] = None"
| "getContainingFunction (current # parents) =
     (if isFunctionLike current then
        (case name current of
           Some nm \<Rightarrow> symbolAtLocation nm
         | None \<Rightarrow> getContainingFunction parents)
      else getContainingFunction parents)"

text \<open>
  The body of \<open>if (callerSymbol && calleeSymbol)\<close>: a new key gets an empty set first, then
  the caller is added to the set stored under the key.
\<close>

definition addEdge :: "call_graph \<Rightarrow> string \<Rightarrow> string \<Rightarrow> call_graph" where
  "addEdge g calleeName callerName =
     (let g1 = (if g calleeName = None then g(calleeName \<mapsto> {}) else g)
      in case g1 calleeName of
           Some callers \<Rightarrow> g1(calleeName \<mapsto> insert callerName callers)
         | None \<Rightarrow> g1)"

text \<open>What \<open>visit\<close> of \<open>buildCallGraph\<close> does at one node, before it goes to the children.\<close>

definition recordCall :: "node_info list \<Rightarrow> node_info \<Rightarrow> call_graph \<Rightarrow> call_graph" where
  "recordCall parents i g =
     (if kind i = CallExpression then
        (let calleeSymbol = expressionSymbol i;
             callerSymbol = getContainingFunction (i # parents)
         in case (callerSymbol, calleeSymbol) of
              (Some caller, Some callee) \<Rightarrow>
                 addEdge g (getFullSymbolName callee) (getFullSymbolName caller)
            | _ \<Rightarrow> g)
      else g)"

fun visitCalls :: "node_info list \<Rightarrow> node \<Rightarrow> call_graph \<Rightarrow> call_graph" where
  "visitCalls parents (Node i cs) g =
     fold (visitCalls (i # parents)) cs (recordCall parents i g)"

text \<open>The loop over the source files of the program; declaration files are skipped.\<close>

definition buildCallGraph :: "analyzer \<Rightarrow> analyzer" where
  "buildCallGraph a =
     a\<lparr>callGraph :=
         fold (\<lambda>sf g. if isDeclarationFile sf then g else visitCalls [] (root sf) g)
           (program a) (callGraph a)\<rparr>"

text \<open>
  The three flags that \<open>analyze\<close> computes for a declaration without callers, the symbol of
  its name, and the finding that is pushed for it.
\<close>

definition isTestFile :: "sourceFile \<Rightarrow> bool" where
  "isTestFile sf = (str_includes (fileName sf) ''.test.'' \<or> str_includes (fileName sf) ''.spec.'')"

definition hasDecorators :: "node_info \<Rightarrow> bool" where
  "hasDecorators i = (case decorators i of None \<Rightarrow> False | Some ds \<Rightarrow> length ds > 0)"

definition nameSymbol :: "node_info \<Rightarrow> symbol option" where
  "nameSymbol i = (case name i of Some nm \<Rightarrow> symbolAtLocation nm | None \<Rightarrow> None)"

definition makeFinding :: "host \<Rightarrow> analyzer \<Rightarrow> sourceFile \<Rightarrow> node_info \<Rightarrow> deadCodeFinding" where
  "makeFinding h a sf i =
     \<lparr>filePath = path_relative h (repoPath a) (fileName sf),
      functionName =
        (case name i of
           Some nm \<Rightarrow> (if getText nm = [] then ''anonymous'' else getText nm)
         | None \<Rightarrow> ''anonymous''),
      lineStart = lineOfPosition sf (getStart i) + 1,
      lineEnd = lineOfPosition sf (getEnd i) + 1,
      confidence = 9 / 10,
      reason = ''Function has no internal references and is not exported''\<rparr>"

text \<open>
  \<open>visit\<close> of the second step of \<open>analyze\<close>. The analyzer and the findings collected so
  far are threaded through. A function or method declaration whose name has no symbol
  returns at once: its children are not visited.
\<close>

fun visitDeclarations ::
  "host \<Rightarrow> sourceFile \<Rightarrow> node \<Rightarrow> analyzer \<times> deadCodeFinding list \<Rightarrow> analyzer \<times> deadCodeFinding list"
where
  "visitDeclarations h sf (Node i cs) (a, findings) =
     (if isFunctionLike i then
        (case nameSymbol i of
           None \<Rightarrow> (a, findings)
         | Some symbol \<Rightarrow>
             (let fullName = getFullSymbolName symbol;
                  references = callGraph a fullName
              in fold (visitDeclarations h sf) cs
                   (if references = None \<or> references = Some {} then
                      (if \<not> isExported i \<and> \<not> isTestFile sf \<and> \<not> hasDecorators i
                       then (a, findings @ [makeFinding h a sf i])
                       else (a, findings))
                    else (a, findings))))
      else fold (visitDeclarations h sf) cs (a, findings))"

text \<open>
  The second step of \<open>analyze\<close>: the loop over the source files of the program, declaration
  files skipped.
\<close>

definition findUnreferenced :: "host \<Rightarrow> analyzer \<times> deadCodeFinding list \<Rightarrow> analyzer \<times> deadCodeFinding list" where
  "findUnreferenced h st =
     fold (\<lambda>sf st'. if isDeclarationFile sf then st' else visitDeclarations h sf (root sf) st')
       (program (fst st)) st"

text \<open>
  \<open>analyze\<close> returns the findings and the analyzer as the run leaves it. Without files it
  returns before a program is created.
\<close>

definition filePatterns :: "string list" where
  "filePatterns = [''**/*.ts'', ''**/*.tsx'', ''**/*.js'', ''**/*.jsx'']"

definition analyze :: "host \<Rightarrow> analyzer \<Rightarrow> deadCodeFinding list \<times> analyzer" where
  "analyze h a =
     (let files = findFiles h (repoPath a) filePatterns
      in if length files = 0 then ([], a)
         else
           (let a1 = a\<lparr>program := createProgram h files\<rparr>;
                a2 = buildCallGraph a1;
                (a3, findings) = findUnreferenced h (a2, [])
            in (findings, a3)))"

section \<open>Notions used to state the properties\<close>

text \<open>
  Every node of a tree in document order, each with the chain of its ancestors (nearest
  first): the parent links that \<open>getContainingFunction\<close> follows.
\<close>

fun nodesWithParents :: "node_info list \<Rightarrow> node \<Rightarrow> (node_info list \<times> node_info) list" where
  "nodesWithParents parents (Node i cs) =
     (parents, i) # concat (map (nodesWithParents (i # parents)) cs)"

text \<open>
  The edge (callee name, caller name) that a node contributes to the call graph: only a call
  expression whose callee and whose containing function both have a symbol contributes one.
\<close>

definition edgeOf :: "node_info list \<times> node_info \<Rightarrow> (string \<times> string) option" where
  "edgeOf site =
     (case site of (parents, i) \<Rightarrow>
        if kind i = CallExpression then
          (case (getContainingFunction (i # parents), expressionSymbol i) of
             (Some caller, Some callee) \<Rightarrow> Some (getFullSymbolName callee, getFullSymbolName caller)
           | _ \<Rightarrow> None)
        else None)"

definition analyzedFiles :: "sourceFile list \<Rightarrow> sourceFile list" where
  "analyzedFiles prog = filter (\<lambda>sf. \<not> isDeclarationFile sf) prog"

definition programNodes :: "sourceFile list \<Rightarrow> (node_info list \<times> node_info) list" where
  "programNodes prog = concat (map (\<lambda>sf. nodesWithParents [] (root sf)) (analyzedFiles prog))"

definition callEdges :: "sourceFile list \<Rightarrow> (string \<times> string) list" where
  "callEdges prog = List.map_filter edgeOf (programNodes prog)"

definition addEdges :: "(string \<times> string) list \<Rightarrow> call_graph \<Rightarrow> call_graph" where
  "addEdges es g = fold (\<lambda>e g'. addEdge g' (fst e) (snd e)) es g"

text \<open>
  The declarations that the second step finds in a tree, in traversal order: the function and
  method declarations whose name has a symbol. The traversal does not enter a function or
  method declaration whose name has none, so declarations nested in one are not found.
\<close>

fun declarationsIn :: "node \<Rightarrow> node_info list" where
  "declarationsIn (Node i cs) =
     (if isFunctionLike i then
        (case nameSymbol i of
           None \<Rightarrow> []
         | Some s \<Rightarrow> i # concat (map declarationsIn cs))
      else concat (map declarationsIn cs))"

definition declarations :: "sourceFile list \<Rightarrow> (sourceFile \<times> node_info) list" where
  "declarations prog =
     concat (map (\<lambda>sf. map (Pair sf) (declarationsIn (root sf))) (analyzedFiles prog))"

text \<open>
  A declaration carries a metadata annotation when a decorator is among its modifiers, or,
  in the tree of an older compiler, when its \<open>decorators\<close> array is not empty.
\<close>

definition isAnnotated :: "node_info \<Rightarrow> bool" where
  "isAnnotated i =
     ((case modifiers i of None \<Rightarrow> False | Some ms \<Rightarrow> list_ex (\<lambda>m. m = Decorator) ms)
      \<or> (case decorators i of None \<Rightarrow> False | Some ds \<Rightarrow> ds \<noteq> []))"

text \<open>
  The three flags of \<open>analyze\<close> together: an export modifier on the node, a test file, a
  non-empty \<open>decorators\<close> array on the node.
\<close>

definition isRoot :: "sourceFile \<Rightarrow> node_info \<Rightarrow> bool" where
  "isRoot sf i = (isExported i \<or> isTestFile sf \<or> hasDecorators i)"

text \<open>The callers that the graph holds for a declaration's qualified name; none when the key is absent.\<close>

definition incomingEdges :: "call_graph \<Rightarrow> node_info \<Rightarrow> string set" where
  "incomingEdges g i =
     (case nameSymbol i of
        None \<Rightarrow> {}
      | Some s \<Rightarrow> (case g (getFullSymbolName s) of None \<Rightarrow> {} | Some callers \<Rightarrow> callers))"

definition isDead :: "call_graph \<Rightarrow> sourceFile \<Rightarrow> node_info \<Rightarrow> bool" where
  "isDead g sf i = (\<not> isRoot sf i \<and> incomingEdges g i = {})"

definition reportOf :: "host \<Rightarrow> analyzer \<Rightarrow> sourceFile \<times> node_info \<Rightarrow> deadCodeFinding" where
  "reportOf h a d = makeFinding h a (fst d) (snd d)"

definition deadFindings :: "host \<Rightarrow> analyzer \<Rightarrow> sourceFile \<Rightarrow> node \<Rightarrow> deadCodeFinding list" where
  "deadFindings h a sf n = map (makeFinding h a sf) (filter (isDead (callGraph a) sf) (declarationsIn n))"

section \<open>Example programs\<close>

definition plainNode :: "syntax_kind \<Rightarrow> nat \<Rightarrow> nat \<Rightarrow> node_info" where
  "plainNode k s e =
     \<lparr>kind = k, name = None, modifiers = None, decorators = None, expressionSymbol = None,
      getStart = s, getEnd = e\<rparr>"

definition declNode :: "syntax_kind \<Rightarrow> string \<Rightarrow> symbol \<Rightarrow> nat \<Rightarrow> nat \<Rightarrow> node_info" where
  "declNode k txt sy s e =
     (plainNode k s e)\<lparr>name := Some \<lparr>getText = txt, symbolAtLocation = Some sy\<rparr>\<rparr>"

definition callNode :: "symbol \<Rightarrow> nat \<Rightarrow> nat \<Rightarrow> node_info" where
  "callNode sy s e = (plainNode CallExpression s e)\<lparr>expressionSymbol := Some sy\<rparr>"

text \<open>
  A host whose repository holds one TypeScript file, with \<open>path.relative\<close> cutting off the
  repository path and the separator.
\<close>

definition exampleHost :: "sourceFile \<Rightarrow> host" where
  "exampleHost sf =
     \<lparr>glob = (\<lambda>pattern cwd ignore. if pattern = ''**/*.ts'' then [fileName sf] else []),
      createProgram = (\<lambda>files. [sf]),
      path_relative = (\<lambda>from to. drop (length from + 1) to)\<rparr>"

text \<open>A host whose repository holds no source file.\<close>

definition emptyHost :: host where
  "emptyHost =
     \<lparr>glob = (\<lambda>pattern cwd ignore. []),
      createProgram = (\<lambda>files. []),
      path_relative = (\<lambda>from to. to)\<rparr>"

definition symMain :: symbol where
  "symMain = \<lparr>symbolId = 1, fullyQualifiedName = ''main''\<rparr>"

definition symHelper :: symbol where
  "symHelper = \<lparr>symbolId = 2, fullyQualifiedName = ''helper''\<rparr>"

definition symDead :: symbol where
  "symDead = \<lparr>symbolId = 3, fullyQualifiedName = ''dead''\<rparr>"

definition symRun :: symbol where
  "symRun = \<lparr>symbolId = 4, fullyQualifiedName = ''Service.run''\<rparr>"

definition symHandler :: symbol where
  "symHandler = \<lparr>symbolId = 5, fullyQualifiedName = ''Api.handler''\<rparr>"

definition symPlain :: symbol where
  "symPlain = \<lparr>symbolId = 6, fullyQualifiedName = ''Api.plain''\<rparr>"

definition symLoop :: symbol where
  "symLoop = \<lparr>symbolId = 7, fullyQualifiedName = ''loop''\<rparr>"

text \<open>
  \<^verbatim>\<open>export function main() { helper(); helper(); }\<close>

  \<^verbatim>\<open>function helper() {}\<close>

  \<^verbatim>\<open>function dead() {}\<close>
\<close>

definition basicFile :: sourceFile where
  "basicFile =
     \<lparr>fileName = ''/repo/app.ts'', isDeclarationFile = False, lineStarts = [0, 47, 68],
      root = Node (plainNode SourceFileKind 0 86)
        [Node ((declNode FunctionDeclaration ''main'' symMain 0 46)\<lparr>modifiers := Some [ExportKeyword]\<rparr>)
           [Node (callNode symHelper 25 33) [], Node (callNode symHelper 35 43) []],
         Node (declNode FunctionDeclaration ''helper'' symHelper 47 67) [],
         Node (declNode FunctionDeclaration ''dead'' symDead 68 86) []]\<rparr>"

text \<open>
  \<^verbatim>\<open>function helper() {}\<close>

  \<^verbatim>\<open>helper();\<close>
\<close>

definition scopeFile :: sourceFile where
  "scopeFile =
     \<lparr>fileName = ''/repo/app.ts'', isDeclarationFile = False, lineStarts = [0, 21],
      root = Node (plainNode SourceFileKind 0 30)
        [Node (declNode FunctionDeclaration ''helper'' symHelper 0 20) [],
         Node (plainNode OtherKind 21 30) [Node (callNode symHelper 21 29) []]]\<rparr>"

text \<open>
  \<^verbatim>\<open>export class Service {\<close>

  \<^verbatim>\<open>  run() {}\<close>

  \<^verbatim>\<open>}\<close>
\<close>

definition classFile :: sourceFile where
  "classFile =
     \<lparr>fileName = ''/repo/app.ts'', isDeclarationFile = False, lineStarts = [0, 23, 34],
      root = Node (plainNode SourceFileKind 0 35)
        [Node ((plainNode ClassDeclaration 0 35)\<lparr>modifiers := Some [ExportKeyword]\<rparr>)
           [Node (declNode MethodDeclaration ''run'' symRun 25 33) []]]\<rparr>"

text \<open>
  \<^verbatim>\<open>class Api {\<close>

  \<^verbatim>\<open>  @route handler() {}\<close>

  \<^verbatim>\<open>  plain() {}\<close>

  \<^verbatim>\<open>}\<close>
\<close>

definition decoratedFile :: sourceFile where
  "decoratedFile =
     \<lparr>fileName = ''/repo/app.ts'', isDeclarationFile = False, lineStarts = [0, 12, 34, 47],
      root = Node (plainNode SourceFileKind 0 48)
        [Node (plainNode ClassDeclaration 0 48)
           [Node ((declNode MethodDeclaration ''handler'' symHandler 14 33)\<lparr>modifiers := Some [Decorator]\<rparr>) [],
            Node (declNode MethodDeclaration ''plain'' symPlain 36 46) []]]\<rparr>"

text \<open>
  \<^verbatim>\<open>export class Service {\<close>

  \<^verbatim>\<open>  run() {}\<close>

  \<^verbatim>\<open>}\<close>

  \<^verbatim>\<open>class Api {\<close>

  \<^verbatim>\<open>  @route handler() {}\<close>

  \<^verbatim>\<open>}\<close>
\<close>

definition rootsFile :: sourceFile where
  "rootsFile =
     \<lparr>fileName = ''/repo/app.ts'', isDeclarationFile = False, lineStarts = [0, 23, 34, 36, 48, 70],
      root = Node (plainNode SourceFileKind 0 71)
        [Node ((plainNode ClassDeclaration 0 35)\<lparr>modifiers := Some [ExportKeyword]\<rparr>)
           [Node (declNode MethodDeclaration ''run'' symRun 25 33) []],
         Node (plainNode ClassDeclaration 36 71)
           [Node ((declNode MethodDeclaration ''handler'' symHandler 50 69)\<lparr>modifiers := Some [Decorator]\<rparr>) []]]\<rparr>"

text \<open>\<^verbatim>\<open>function loop() { loop(); }\<close>\<close>

definition loopFile :: sourceFile where
  "loopFile =
     \<lparr>fileName = ''/repo/app.ts'', isDeclarationFile = False, lineStarts = [0],
      root = Node (plainNode SourceFileKind 0 27)
        [Node (declNode FunctionDeclaration ''loop'' symLoop 0 27)
           [Node (plainNode OtherKind 16 27) [Node (callNode symLoop 18 24) []]]]\<rparr>"

lemmas example_defs = plainNode_def declNode_def callNode_def exampleHost_def emptyHost_def
  symMain_def symHelper_def symDead_def symRun_def symHandler_def symPlain_def symLoop_def
  basicFile_def scopeFile_def classFile_def decoratedFile_def rootsFile_def loopFile_def

lemmas engine_defs = analyze_def findFiles_def filePatterns_def DeadCodeAnalyzer_def buildCallGraph_def
  findUnreferenced_def recordCall_def addEdge_def isFunctionLike_def nameSymbol_def getFullSymbolName_def
  isExported_def isTestFile_def hasDecorators_def makeFinding_def lineOfPosition_def Let_def

section \<open>The call graph that \<open>buildCallGraph\<close> builds\<close>

lemma addEdge_eq:
  "addEdge g k c = g(k \<mapsto> insert c (case g k of None \<Rightarrow> {} | Some S \<Rightarrow> S))"
  by (auto simp: addEdge_def Let_def split: option.splits)

lemma recordCall_edgeOf:
  "recordCall ps i g = (case edgeOf (ps, i) of None \<Rightarrow> g | Some e \<Rightarrow> addEdge g (fst e) (snd e))"
  by (simp add: recordCall_def edgeOf_def Let_def split: option.splits)

lemma fold_concat_map:
  assumes "\<And>x s. x \<in> set xs \<Longrightarrow> f x s = fold F (N x) s"
  shows "fold f xs s = fold F (concat (map N xs)) s"
  using assms by (induction xs arbitrary: s) simp_all

lemma visitCalls_fold:
  "visitCalls ps n g = fold (\<lambda>site. recordCall (fst site) (snd site)) (nodesWithParents ps n) g"
proof (induction ps n g rule: visitCalls.induct)
  case (1 parents i cs g)
  show ?case
    using "1.IH" by (simp add: fold_concat_map [where N = "nodesWithParents (i # parents)"])
qed

lemma fold_recordCall_addEdges:
  "fold (\<lambda>site. recordCall (fst site) (snd site)) sites g = addEdges (List.map_filter edgeOf sites) g"
  by (induction sites arbitrary: g)
     (simp_all add: addEdges_def map_filter_simps recordCall_edgeOf split: option.splits)

lemma fold_files_calls:
  "fold (\<lambda>sf g. if isDeclarationFile sf then g else visitCalls [] (root sf) g) prog g =
   fold (\<lambda>site. recordCall (fst site) (snd site)) (programNodes prog) g"
  by (induction prog arbitrary: g) (simp_all add: programNodes_def analyzedFiles_def visitCalls_fold)

lemma buildCallGraph_addEdges:
  "buildCallGraph a = a\<lparr>callGraph := addEdges (callEdges (program a)) (callGraph a)\<rparr>"
  by (simp add: buildCallGraph_def fold_files_calls fold_recordCall_addEdges callEdges_def)

lemma addEdges_lookup:
  "addEdges es g k =
     (if k \<in> fst ` set es
      then Some ((case g k of None \<Rightarrow> {} | Some S \<Rightarrow> S) \<union> {c. (k, c) \<in> set es})
      else g k)"
proof (induction es arbitrary: g)
  case Nil
  show ?case by (simp add: addEdges_def)
next
  case (Cons e es)
  have step: "addEdges (e # es) g = addEdges es (addEdge g (fst e) (snd e))"
    by (simp add: addEdges_def)
  show ?case
    unfolding step Cons.IH
    by (cases e) (auto simp: addEdge_eq image_iff split: option.splits)
qed

lemma set_map_filter_iff:
  "y \<in> set (List.map_filter f xs) \<longleftrightarrow> (\<exists>x \<in> set xs. f x = Some y)"
  by (induction xs) (auto split: option.splits)

lemma callEdges_iff:
  "(k, c) \<in> set (callEdges prog) \<longleftrightarrow> (\<exists>site \<in> set (programNodes prog). edgeOf site = Some (k, c))"
  by (simp add: callEdges_def set_map_filter_iff)

lemma callGraph_buildCallGraph:
  "callGraph (buildCallGraph a) k =
     (if k \<in> fst ` set (callEdges (program a))
      then Some ((case callGraph a k of None \<Rightarrow> {} | Some S \<Rightarrow> S) \<union> {c. (k, c) \<in> set (callEdges (program a))})
      else callGraph a k)"
  by (simp add: buildCallGraph_addEdges addEdges_lookup)

lemma addEdges_idem: "addEdges es (addEdges es g) = addEdges es g"
  by (rule ext) (simp add: addEdges_lookup)

lemma addEdge_idem: "addEdge (addEdge g k c) k c = addEdge g k c"
  by (simp add: addEdge_eq)

lemma recordCall_idem: "recordCall ps i (recordCall ps i g) = recordCall ps i g"
  by (simp add: recordCall_edgeOf addEdge_idem split: option.splits)

lemma recordCall_funpow: "(recordCall ps i ^^ Suc n) g = recordCall ps i g"
  by (induction n) (simp_all add: recordCall_idem)

section \<open>The findings of the second step\<close>

lemma fold_visit_concat:
  assumes "\<And>x fs. x \<in> set xs \<Longrightarrow> f x (a, fs) = (a, fs @ F x)"
  shows "fold f xs (a, fs) = (a, fs @ concat (map F xs))"
  using assms by (induction xs arbitrary: fs) simp_all

lemma isDead_iff:
  "nameSymbol i = Some s \<Longrightarrow>
   isDead g sf i \<longleftrightarrow>
     ((g (getFullSymbolName s) = None \<or> g (getFullSymbolName s) = Some {})
      \<and> \<not> isExported i \<and> \<not> isTestFile sf \<and> \<not> hasDecorators i)"
  by (auto simp: isDead_def isRoot_def incomingEdges_def split: option.splits)

lemma deadFindings_children:
  "concat (map (deadFindings h a sf) cs) =
     map (makeFinding h a sf) (filter (isDead (callGraph a) sf) (concat (map declarationsIn cs)))"
  by (induction cs) (simp_all add: deadFindings_def)

lemma visitDeclarations_eq:
  "visitDeclarations h sf n (a, fs) = (a, fs @ deadFindings h a sf n)"
proof (induction n arbitrary: fs)
  case (Node i cs)
  let ?F = "deadFindings h a sf"
  show ?case
  proof (cases "isFunctionLike i")
    case False
    have "fold (visitDeclarations h sf) cs (a, fs) = (a, fs @ concat (map ?F cs))"
      by (rule fold_visit_concat) (use Node.IH in simp)
    with False show ?thesis
      by (simp add: deadFindings_children) (simp add: deadFindings_def)
  next
    case True
    show ?thesis
    proof (cases "nameSymbol i")
      case None
      with True show ?thesis by (simp add: deadFindings_def)
    next
      case (Some s)
      have rec: "fold (visitDeclarations h sf) cs (a, fs') = (a, fs' @ concat (map ?F cs))" for fs'
        by (rule fold_visit_concat) (use Node.IH in simp)
      from True Some show ?thesis
        by (simp add: rec Let_def deadFindings_children isDead_iff [OF Some])
           (simp add: deadFindings_def isDead_iff [OF Some])
    qed
  qed
qed

lemma findUnreferenced_eq:
  "findUnreferenced h (a, fs) =
     (a, fs @ map (\<lambda>d. makeFinding h a (fst d) (snd d))
               (filter (\<lambda>d. isDead (callGraph a) (fst d) (snd d)) (declarations (program a))))"
proof -
  have "fold (\<lambda>sf st'. if isDeclarationFile sf then st' else visitDeclarations h sf (root sf) st') prog (a, fs) =
     (a, fs @ map (\<lambda>d. makeFinding h a (fst d) (snd d))
               (filter (\<lambda>d. isDead (callGraph a) (fst d) (snd d)) (declarations prog)))" for prog
    by (induction prog arbitrary: fs)
       (simp_all add: declarations_def analyzedFiles_def visitDeclarations_eq deadFindings_def
          filter_map comp_def)
  then show ?thesis by (simp add: findUnreferenced_def)
qed

lemma analyze_nonempty:
  assumes "findFiles h (repoPath a) filePatterns \<noteq> []"
  shows "analyze h a =
     (let a2 = buildCallGraph (a\<lparr>program := createProgram h (findFiles h (repoPath a) filePatterns)\<rparr>)
      in (map (reportOf h a)
            (filter (\<lambda>d. isDead (callGraph a2) (fst d) (snd d)) (declarations (program a2))),
          a2))"
proof -
  let ?a2 = "buildCallGraph (a\<lparr>program := createProgram h (findFiles h (repoPath a) filePatterns)\<rparr>)"
  have rp: "repoPath ?a2 = repoPath a"
    by (simp add: buildCallGraph_addEdges)
  have rep: "(\<lambda>d. makeFinding h ?a2 (fst d) (snd d)) = reportOf h a"
    by (rule ext) (simp add: reportOf_def makeFinding_def rp)
  show ?thesis
    using assms by (simp add: analyze_def Let_def findUnreferenced_eq rep)
qed

lemma analyze_empty:
  "findFiles h (repoPath a) filePatterns = [] \<Longrightarrow> analyze h a = ([], a)"
  by (simp add: analyze_def)

lemma filter_dead_restrict:
  assumes "\<And>d. isDead g (fst d) (snd d) \<Longrightarrow> Q d"
  shows "filter (\<lambda>d. isDead g (fst d) (snd d)) ds = filter (\<lambda>d. isDead g (fst d) (snd d)) (filter Q ds)"
  using assms by (induction ds) auto


section \<open>Runs of the example programs\<close>

lemma example_files:
  "findFiles (exampleHost sf) (repoPath (DeadCodeAnalyzer ''/repo'')) filePatterns = [fileName sf]"
  by (simp add: findFiles_def filePatterns_def exampleHost_def DeadCodeAnalyzer_def)

lemma basic_run:
  "analyze (exampleHost basicFile) (DeadCodeAnalyzer ''/repo'') =
     ([\<lparr>filePath = ''app.ts'', functionName = ''dead'', lineStart = 3, lineEnd = 3,
        confidence = 9 / 10, reason = ''Function has no internal references and is not exported''\<rparr>],
      \<lparr>repoPath = ''/repo'', program = [basicFile], callGraph = [''helper'' \<mapsto> {''main''}]\<rparr>)"
  by (simp add: example_defs engine_defs)

lemma scope_run:
  "analyze (exampleHost scopeFile) (DeadCodeAnalyzer ''/repo'') =
     ([\<lparr>filePath = ''app.ts'', functionName = ''helper'', lineStart = 1, lineEnd = 1,
        confidence = 9 / 10, reason = ''Function has no internal references and is not exported''\<rparr>],
      \<lparr>repoPath = ''/repo'', program = [scopeFile], callGraph = Map.empty\<rparr>)"
  by (simp add: example_defs engine_defs)

lemma decorated_run:
  "fst (analyze (exampleHost decoratedFile) (DeadCodeAnalyzer ''/repo'')) =
     [\<lparr>filePath = ''app.ts'', functionName = ''handler'', lineStart = 2, lineEnd = 2,
       confidence = 9 / 10, reason = ''Function has no internal references and is not exported''\<rparr>,
      \<lparr>filePath = ''app.ts'', functionName = ''plain'', lineStart = 3, lineEnd = 3,
       confidence = 9 / 10, reason = ''Function has no internal references and is not exported''\<rparr>]"
  by (simp add: example_defs engine_defs)


lemma loop_run:
  "analyze (exampleHost loopFile) (DeadCodeAnalyzer ''/repo'') =
     ([], \<lparr>repoPath = ''/repo'', program = [loopFile], callGraph = [''loop'' \<mapsto> {''loop''}]\<rparr>)"
  by (simp add: example_defs engine_defs)

section \<open>The properties\<close>

subsection \<open>C1: the classification law\<close>




subsection \<open>C2: calls at module scope\<close>

text \<open>
  C2. In the second example \<open>helper\<close> is called from a statement at module scope; the callee
  resolves, and \<open>helper\<close> is neither exported nor in a test file. The call has no enclosing
  function or method declaration, so the builder finds no caller symbol and records
  nothing: the call graph stays empty, and \<open>helper\<close>, although called, is reported as a
  function that has no internal references.
\<close>

theorem module_scope_call_reported:
  "fst (analyze (exampleHost scopeFile) (DeadCodeAnalyzer ''/repo'')) =
     [\<lparr>filePath = ''app.ts'', functionName = ''helper'', lineStart = 1, lineEnd = 1,
       confidence = 9 / 10, reason = ''Function has no internal references and is not exported''\<rparr>]
   \<and> callGraph (snd (analyze (exampleHost scopeFile) (DeadCodeAnalyzer ''/repo''))) = Map.empty
   \<and> programNodes [scopeFile] ! 3 =
       ([plainNode OtherKind 21 30, plainNode SourceFileKind 0 30], callNode symHelper 21 29)
   \<and> expressionSymbol (callNode symHelper 21 29) = Some symHelper
   \<and> getContainingFunction
        [callNode symHelper 21 29, plainNode OtherKind 21 30, plainNode SourceFileKind 0 30] = None
   \<and> recordCall [plainNode OtherKind 21 30, plainNode SourceFileKind 0 30] (callNode symHelper 21 29) Map.empty
       = Map.empty"
  by (simp add: scope_run)
     (simp add: programNodes_def analyzedFiles_def scopeFile_def recordCall_def
        plainNode_def declNode_def callNode_def isFunctionLike_def)

subsection \<open>C3: exported declarations\<close>

text \<open>
  C3, as stated, fails. In the third example the class is exported and its method \<open>run\<close>
  has no export modifier of its own: the method is reported.
\<close>

theorem exported_class_method_counterexample:
  "fst (analyze (exampleHost classFile) (DeadCodeAnalyzer ''/repo'')) =
     [\<lparr>filePath = ''app.ts'', functionName = ''run'', lineStart = 2, lineEnd = 2,
       confidence = 9 / 10, reason = ''Function has no internal references and is not exported''\<rparr>]
   \<and> isExported ((plainNode ClassDeclaration 0 35)\<lparr>modifiers := Some [ExportKeyword]\<rparr>)"
  by (simp add: example_defs engine_defs)

text \<open>
  C3, amended. A declaration that carries the export modifier itself is never reported,
  whatever the call graph holds: the findings of a run are computed from the declarations
  without an export modifier of their own.
\<close>

theorem own_export_never_dead:
  assumes "findFiles h (repoPath a) filePatterns \<noteq> []"
  shows "fst (analyze h a) =
     map (reportOf h a)
       (filter (\<lambda>d. \<not> isTestFile (fst d) \<and> \<not> hasDecorators (snd d)
                    \<and> incomingEdges (callGraph (snd (analyze h a))) (snd d) = {})
          (filter (\<lambda>d. \<not> isExported (snd d)) (declarations (program (snd (analyze h a))))))"
  by (simp add: analyze_nonempty [OF assms] Let_def isDead_def isRoot_def conj_ac cong: conj_cong)

theorem own_export_never_dead_witness:
  "findFiles (exampleHost basicFile) (repoPath (DeadCodeAnalyzer ''/repo'')) filePatterns \<noteq> []
   \<and> isExported ((declNode FunctionDeclaration ''main'' symMain 0 46)\<lparr>modifiers := Some [ExportKeyword]\<rparr>)
   \<and> map functionName (fst (analyze (exampleHost basicFile) (DeadCodeAnalyzer ''/repo''))) = [''dead'']
   \<and> map (functionName \<circ> reportOf (exampleHost basicFile) (DeadCodeAnalyzer ''/repo''))
       (filter (\<lambda>d. \<not> isTestFile (fst d) \<and> \<not> hasDecorators (snd d)
                    \<and> incomingEdges (callGraph (snd (analyze (exampleHost basicFile) (DeadCodeAnalyzer ''/repo'')))) (snd d) = {})
          (filter (\<lambda>d. \<not> isExported (snd d))
             (declarations (program (snd (analyze (exampleHost basicFile) (DeadCodeAnalyzer ''/repo''))))))) = [''dead'']"
proof -
  have files: "findFiles (exampleHost basicFile) (repoPath (DeadCodeAnalyzer ''/repo'')) filePatterns \<noteq> []"
    by (simp add: example_files)
  have run: "map functionName (fst (analyze (exampleHost basicFile) (DeadCodeAnalyzer ''/repo''))) = [''dead'']"
    by (simp add: basic_run)
  have ex: "isExported ((declNode FunctionDeclaration ''main'' symMain 0 46)\<lparr>modifiers := Some [ExportKeyword]\<rparr>)"
    by (simp add: isExported_def declNode_def plainNode_def)
  from own_export_never_dead [OF files] run files ex
  show ?thesis by simp
qed

subsection \<open>C4: declarations with decorators\<close>

text \<open>
  C4. In the fourth example neither method is called, and \<open>handler\<close> carries the decorator
  \<open>@route\<close>. The decorator is among the modifiers of the method, and the method has no
  \<open>decorators\<close> array, so \<open>hasDecorators\<close> is false for it: the annotated method is
  reported, as the undecorated one is.
\<close>

theorem decorated_method_reported:
  "fst (analyze (exampleHost decoratedFile) (DeadCodeAnalyzer ''/repo'')) =
     [\<lparr>filePath = ''app.ts'', functionName = ''handler'', lineStart = 2, lineEnd = 2,
       confidence = 9 / 10, reason = ''Function has no internal references and is not exported''\<rparr>,
      \<lparr>filePath = ''app.ts'', functionName = ''plain'', lineStart = 3, lineEnd = 3,
       confidence = 9 / 10, reason = ''Function has no internal references and is not exported''\<rparr>]
   \<and> isAnnotated ((declNode MethodDeclaration ''handler'' symHandler 14 33)\<lparr>modifiers := Some [Decorator]\<rparr>)
   \<and> \<not> hasDecorators ((declNode MethodDeclaration ''handler'' symHandler 14 33)\<lparr>modifiers := Some [Decorator]\<rparr>)"
  by (simp add: decorated_run) (simp add: isAnnotated_def hasDecorators_def declNode_def plainNode_def)

subsection \<open>C5: the shape of a finding\<close>



subsection \<open>C6: no input files\<close>

text \<open>
  C6. When \<open>findFiles\<close> finds no file, \<open>analyze\<close> returns the empty list of findings; it
  returns normally, before a program is created, and leaves the analyzer as it was.
\<close>

theorem empty_input_no_findings:
  assumes "findFiles h (repoPath a) filePatterns = []"
  shows "analyze h a = ([], a)"
  using assms by (rule analyze_empty)

theorem empty_input_no_findings_witness:
  "findFiles emptyHost (repoPath (DeadCodeAnalyzer ''/repo'')) filePatterns = []
   \<and> analyze emptyHost (DeadCodeAnalyzer ''/repo'') = ([], DeadCodeAnalyzer ''/repo'')"
proof -
  have files: "findFiles emptyHost (repoPath (DeadCodeAnalyzer ''/repo'')) filePatterns = []"
    by (simp add: findFiles_def filePatterns_def emptyHost_def)
  from empty_input_no_findings [OF files] files show ?thesis by simp
qed

subsection \<open>C7: set semantics of the call graph\<close>

text \<open>
  C7. After \<open>buildCallGraph\<close> the callers stored for a key are the callers stored before
  together with the callers of all resolved calls to that key: a set, in which a caller occurs
  once however many call expressions it has to the callee. Recording the same call any number
  of times gives the graph that recording it once gives, and adding an edge for a key that
  exists inserts the caller into the set stored there and keeps its other members.
\<close>

theorem callGraph_set_semantics:
  "callGraph (buildCallGraph a) k =
     (if k \<in> fst ` set (callEdges (program a))
      then Some ((case callGraph a k of None \<Rightarrow> {} | Some S \<Rightarrow> S)
                 \<union> {c. (k, c) \<in> set (callEdges (program a))})
      else callGraph a k)
   \<and> (recordCall ps i ^^ Suc n) g = recordCall ps i g
   \<and> addEdge g k c = g(k \<mapsto> insert c (case g k of None \<Rightarrow> {} | Some S \<Rightarrow> S))"
  using callGraph_buildCallGraph [of a k] recordCall_funpow [where ps = ps and i = i and n = n and g = g]
    addEdge_eq [of g k c]
  by (simp only: simp_thms)

text \<open>In the first example \<open>main\<close> calls \<open>helper\<close> twice; \<open>helper\<close> has the one caller \<open>main\<close>.\<close>

theorem callGraph_set_semantics_witness:
  "callGraph (buildCallGraph ((DeadCodeAnalyzer ''/repo'')\<lparr>program := [basicFile]\<rparr>)) ''helper''
     = Some {''main''}
   \<and> length (filter (\<lambda>e. e = (''helper'', ''main'')) (callEdges [basicFile])) = 2
   \<and> addEdge [''helper'' \<mapsto> {''other''}] ''helper'' ''main'' = [''helper'' \<mapsto> {''main'', ''other''}]"
proof -
  have edges: "callEdges [basicFile] = [(''helper'', ''main''), (''helper'', ''main'')]"
    by (simp add: callEdges_def programNodes_def analyzedFiles_def edgeOf_def example_defs
          isFunctionLike_def getFullSymbolName_def)
  from callGraph_set_semantics
         [where a = "(DeadCodeAnalyzer ''/repo'')\<lparr>program := [basicFile]\<rparr>" and k = "''helper''"
            and ps = "[]" and i = "callNode symHelper 25 33" and n = 0
            and g = "[''helper'' \<mapsto> {''other''}]" and c = "''main''"]
  show ?thesis
    by (simp add: edges DeadCodeAnalyzer_def)
qed

subsection \<open>C8: running twice\<close>

text \<open>
  C8. A second run of the same analyzer over the same host gives the findings of the first
  run, and leaves the analyzer in the state the first run left it in.
\<close>

theorem analyze_twice_same:
  "analyze h (snd (analyze h a)) = analyze h a"
proof (cases "findFiles h (repoPath a) filePatterns = []")
  case True
  then show ?thesis by (simp add: analyze_empty)
next
  case False
  let ?files = "findFiles h (repoPath a) filePatterns"
  let ?a2 = "buildCallGraph (a\<lparr>program := createProgram h ?files\<rparr>)"
  have first: "snd (analyze h a) = ?a2"
    by (simp add: analyze_nonempty [OF False] Let_def)
  have rp: "repoPath ?a2 = repoPath a"
    by (simp add: buildCallGraph_addEdges)
  have again: "buildCallGraph (?a2\<lparr>program := createProgram h ?files\<rparr>) = ?a2"
    by (simp add: buildCallGraph_addEdges addEdges_idem)
  have rep: "reportOf h ?a2 = reportOf h a"
    by (rule ext) (simp add: reportOf_def makeFinding_def rp)
  from False rp have ne: "findFiles h (repoPath ?a2) filePatterns \<noteq> []"
    by simp
  have "analyze h (snd (analyze h a)) = analyze h ?a2"
    by (simp only: first)
  also have "\<dots> = (map (reportOf h a)
            (filter (\<lambda>d. isDead (callGraph ?a2) (fst d) (snd d)) (declarations (program ?a2))), ?a2)"
    by (simp only: analyze_nonempty [OF ne] rp again rep Let_def)
  also have "\<dots> = analyze h a"
    by (simp only: analyze_nonempty [OF False] Let_def)
  finally show ?thesis .
qed

theorem analyze_twice_same_witness:
  "fst (analyze (exampleHost basicFile) (snd (analyze (exampleHost basicFile) (DeadCodeAnalyzer ''/repo'')))) =
     [\<lparr>filePath = ''app.ts'', functionName = ''dead'', lineStart = 3, lineEnd = 3,
       confidence = 9 / 10, reason = ''Function has no internal references and is not exported''\<rparr>]"
  using analyze_twice_same [of "exampleHost basicFile" "DeadCodeAnalyzer ''/repo''"]
  by (simp add: basic_run)

subsection \<open>C9: the second step only reads the call graph\<close>

text \<open>
  C9. Visiting a tree in the second step, and the whole second step, return the analyzer they
  were given, so the call graph after the classification of every declaration is the graph
  that \<open>buildCallGraph\<close> built; the graph the analyzer holds after a run is that graph.
\<close>

theorem classification_reads_only:
  "fst (visitDeclarations h sf n (a, fs)) = a
   \<and> fst (findUnreferenced h (a, fs)) = a
   \<and> callGraph (snd (analyze h a)) =
       (if findFiles h (repoPath a) filePatterns = [] then callGraph a
        else callGraph (buildCallGraph (a\<lparr>program := createProgram h (findFiles h (repoPath a) filePatterns)\<rparr>)))"
  by (simp add: visitDeclarations_eq findUnreferenced_eq analyze_def Let_def)

theorem classification_reads_only_witness:
  "callGraph (snd (analyze (exampleHost basicFile) (DeadCodeAnalyzer ''/repo''))) =
     callGraph (buildCallGraph ((DeadCodeAnalyzer ''/repo'')\<lparr>program := [basicFile]\<rparr>))
   \<and> callGraph (snd (analyze (exampleHost basicFile) (DeadCodeAnalyzer ''/repo''))) = [''helper'' \<mapsto> {''main''}]"
  using classification_reads_only [of "exampleHost basicFile" basicFile "root basicFile"
          "DeadCodeAnalyzer ''/repo''" "[]"]
  by (simp add: basic_run example_files) (simp add: exampleHost_def DeadCodeAnalyzer_def)

subsection \<open>C10: self-recursive functions\<close>

text \<open>
  C10. When a call expression resolves to the symbol of the function or method declaration
  that contains it, the graph after the run holds the qualified name of that symbol among its
  own callers, and no declaration with that symbol is reported: the findings are computed
  from the other declarations.
\<close>

theorem self_recursive_not_dead:
  assumes files: "findFiles h (repoPath a) filePatterns \<noteq> []"
    and site: "(parents, c) \<in> set (programNodes (createProgram h (findFiles h (repoPath a) filePatterns)))"
    and call: "kind c = CallExpression"
    and callee: "expressionSymbol c = Some s"
    and caller: "getContainingFunction (c # parents) = Some s"
  shows "getFullSymbolName s \<in>
           (case callGraph (snd (analyze h a)) (getFullSymbolName s) of None \<Rightarrow> {} | Some callers \<Rightarrow> callers)
         \<and> fst (analyze h a) =
             map (reportOf h a)
               (filter (\<lambda>d. isDead (callGraph (snd (analyze h a))) (fst d) (snd d))
                  (filter (\<lambda>d. nameSymbol (snd d) \<noteq> Some s)
                     (declarations (program (snd (analyze h a))))))"
proof -
  let ?prog = "createProgram h (findFiles h (repoPath a) filePatterns)"
  let ?a2 = "buildCallGraph (a\<lparr>program := ?prog\<rparr>)"
  let ?k = "getFullSymbolName s"
  have "edgeOf (parents, c) = Some (?k, ?k)"
    using call callee caller by (simp add: edgeOf_def)
  with site have edge: "(?k, ?k) \<in> set (callEdges ?prog)"
    by (auto simp: callEdges_iff)
  then have "?k \<in> fst ` set (callEdges ?prog)"
    by force
  with edge have self: "?k \<in> (case callGraph ?a2 ?k of None \<Rightarrow> {} | Some callers \<Rightarrow> callers)"
    by (simp add: callGraph_buildCallGraph)
  have "nameSymbol (snd d) \<noteq> Some s" if "isDead (callGraph ?a2) (fst d) (snd d)" for d
    using that self by (auto simp: isDead_def incomingEdges_def)
  from filter_dead_restrict [of "callGraph ?a2" "\<lambda>d. nameSymbol (snd d) \<noteq> Some s", OF this] self
  show ?thesis
    by (simp add: analyze_nonempty [OF files] Let_def)
qed

theorem self_recursive_not_dead_witness:
  "getFullSymbolName symLoop \<in>
     (case callGraph (snd (analyze (exampleHost loopFile) (DeadCodeAnalyzer ''/repo''))) (getFullSymbolName symLoop)
      of None \<Rightarrow> {} | Some callers \<Rightarrow> callers)
   \<and> fst (analyze (exampleHost loopFile) (DeadCodeAnalyzer ''/repo'')) = []
   \<and> \<not> isRoot loopFile (declNode FunctionDeclaration ''loop'' symLoop 0 27)"
proof -
  let ?h = "exampleHost loopFile" and ?a = "DeadCodeAnalyzer ''/repo''"
  let ?parents = "[plainNode OtherKind 16 27, declNode FunctionDeclaration ''loop'' symLoop 0 27,
                   plainNode SourceFileKind 0 27]"
  let ?c = "callNode symLoop 18 24"
  have files: "findFiles ?h (repoPath ?a) filePatterns \<noteq> []"
    by (simp add: example_files)
  have prog: "createProgram ?h (findFiles ?h (repoPath ?a) filePatterns) = [loopFile]"
    by (simp add: exampleHost_def)
  have site: "(?parents, ?c) \<in> set (programNodes (createProgram ?h (findFiles ?h (repoPath ?a) filePatterns)))"
    unfolding prog by (simp add: programNodes_def analyzedFiles_def loopFile_def)
  have call: "kind ?c = CallExpression" and callee: "expressionSymbol ?c = Some symLoop"
    by (simp_all add: callNode_def plainNode_def)
  have caller: "getContainingFunction (?c # ?parents) = Some symLoop"
    by (simp add: callNode_def plainNode_def declNode_def isFunctionLike_def)
  have nonroot: "\<not> isRoot loopFile (declNode FunctionDeclaration ''loop'' symLoop 0 27)"
    by (simp add: isRoot_def isExported_def isTestFile_def hasDecorators_def example_defs)
  from self_recursive_not_dead [OF files site call callee caller] nonroot
  show ?thesis by (simp add: loop_run)
qed

end
